theory Spec2Isabelle
  imports Complex_Main
begin

section \<open>Data model\<close>

text \<open>
  The element variants of a distributed matrix (numpy dtypes float32, float64,
  complex64, complex128).
\<close>

datatype dtype = Float32 | Float64 | Complex64 | Complex128

text \<open>
  The process grid as one process sees it: the grid's extents and this process's
  coordinate in it.
\<close>

record ProcessContext =
  grid_shape :: "nat \<times> nat"
  grid_position :: "nat \<times> nat"

text \<open>
  \<open>core.DistributedMatrix\<close>. The attribute \<open>context\<close> of the source is the
  field \<open>grid_context\<close>. The local buffer is a list of rows. The type \<open>'a\<close> of the
  entries is left open; where the code computes with entries (the masking in
  \<open>cholesky\<close>) it uses the product, the zero and the one of that type, and for a float
  matrix these are the ones of \<open>ieee\<close> below.
\<close>

record 'a DistributedMatrix =
  global_shape :: "nat \<times> nat"
  block_shape :: "nat \<times> nat"
  grid_context :: ProcessContext
  dtype :: dtype
  local_array :: "'a list list"

text \<open>
  A floating-point entry: a finite value, an infinity or a NaN. The product is the IEEE
  one on the special values: a NaN times anything is a NaN, and so is an infinity times
  zero. Finite values are real numbers: rounding, overflow and the sign of zero are not
  modelled, and the only products the code forms, with 1.0 and with 0.0, are exact.
\<close>

datatype ieee = Finite real | PInf | NInf | NaN

instantiation ieee :: "{zero, one, times}"
begin

definition zero_ieee :: ieee where
  "zero_ieee = Finite 0"

definition one_ieee :: ieee where
  "one_ieee = Finite 1"

fun times_ieee :: "ieee \<Rightarrow> ieee \<Rightarrow> ieee" where
  "times_ieee NaN y = NaN"
| "times_ieee x NaN = NaN"
| "times_ieee (Finite a) (Finite b) = Finite (a * b)"
| "times_ieee (Finite a) PInf = (if a = 0 then NaN else if 0 < a then PInf else NInf)"
| "times_ieee (Finite a) NInf = (if a = 0 then NaN else if 0 < a then NInf else PInf)"
| "times_ieee PInf (Finite b) = (if b = 0 then NaN else if 0 < b then PInf else NInf)"
| "times_ieee NInf (Finite b) = (if b = 0 then NaN else if 0 < b then NInf else PInf)"
| "times_ieee PInf PInf = PInf"
| "times_ieee PInf NInf = NInf"
| "times_ieee NInf PInf = NInf"
| "times_ieee NInf NInf = PInf"

instance ..

end

text \<open>A one-dimensional numpy array of real numbers, with its dtype tag.\<close>

record ndarray =
  nd_dtype :: dtype
  nd_data :: "real list"

text \<open>
  Python exceptions: the class raised and its message. \<open>Exception\<close> is the builtin,
  \<open>ScalapackException\<close> and \<open>ScalapyException\<close> are the classes of \<open>core\<close> that
  \<open>routines.py\<close> raises by name, \<open>KeyError\<close> is what a dictionary lookup raises.
  \<open>ShapeError\<close> is the error kind the specification gives to \<open>util.assert_square\<close>
  and to the matrix constructor, neither of which is part of \<open>routines.py\<close>.
\<close>

datatype exn_class = Exception | ScalapackException | ScalapyException | KeyError | ShapeError

datatype exn = Raise exn_class string

fun exn_kind :: "exn \<Rightarrow> exn_class" where
  "exn_kind (Raise c msg) = c"

fun exn_msg :: "exn \<Rightarrow> string" where
  "exn_msg (Raise c msg) = msg"

text \<open>The entry points of \<open>lowlevel\<close> that \<open>routines.py\<close> dispatches to.\<close>

datatype routine =
    pssyevr | pdsyevr | pcheevr | pzheevr
  | pspotrf | pdpotrf | pcpotrf | pzpotrf
  | psgemm | pcgemm | pdgemm | pzgemm

text \<open>
  One positional argument of a backend call: a string flag, an integer, a float, a
  distributed matrix (its contents when the call is made), a numpy array, or an
  \<open>ll.WorkArray\<close> request with its type codes.
\<close>

datatype 'a arg =
    Str string
  | Intg int
  | Flt real
  | Mat "'a DistributedMatrix"
  | Arr ndarray
  | WorkArray "string list"

text \<open>
  What a backend call hands back. The Fortran routines return status integers and write
  through the buffers they were passed; the model returns the status together with the
  new contents of each buffer the routine may write, following the argument roles
  of ScaLAPACK and PBLAS: \<open>p?syevr\<close> overwrites A and fills W (eigenvalues) and Z
  (eigenvectors), \<open>p?potrf\<close> overwrites A, \<open>p?gemm\<close> writes C only.
\<close>

record 'a syevr_ret =
  syevr_info :: int
  syevr_m :: int
  syevr_nz :: int
  syevr_a :: "'a list list"
  syevr_w :: "real list"
  syevr_z :: "'a list list"

record 'a potrf_ret =
  potrf_info :: int
  potrf_a :: "'a list list"

record 'a gemm_ret =
  gemm_status :: int
  gemm_c :: "'a list list"

text \<open>
  Everything \<open>routines.py\<close> takes from outside: the three families of backend routines
  and the contents of freshly allocated, uninitialised memory (\<open>np.empty\<close>).
\<close>

record 'a env =
  ll_syevr :: "routine \<Rightarrow> 'a arg list \<Rightarrow> 'a syevr_ret"
  ll_potrf :: "routine \<Rightarrow> 'a arg list \<Rightarrow> 'a potrf_ret"
  ll_gemm :: "routine \<Rightarrow> 'a arg list \<Rightarrow> 'a gemm_ret"
  uninit :: 'a
  uninit_real :: real

text \<open>
  The state of one process: the distributed matrices that exist (a reference is an
  index into \<open>heap\<close>), and the log of backend calls made so far.
\<close>

type_synonym ref = nat

record 'a world =
  heap :: "'a DistributedMatrix list"
  calls :: "(routine \<times> 'a arg list) list"

definition deref :: "'a world \<Rightarrow> ref \<Rightarrow> 'a DistributedMatrix" where
  "deref w r = heap w ! r"

definition alloc :: "'a world \<Rightarrow> 'a DistributedMatrix \<Rightarrow> ref \<times> 'a world" where
  "alloc w A = (length (heap w), w\<lparr>heap := heap w @ [A]\<rparr>)"

definition set_local_array :: "'a world \<Rightarrow> ref \<Rightarrow> 'a list list \<Rightarrow> 'a world" where
  "set_local_array w r buf = w\<lparr>heap := (heap w)[r := (heap w ! r)\<lparr>local_array := buf\<rparr>]\<rparr>"

definition log_call :: "'a world \<Rightarrow> routine \<Rightarrow> 'a arg list \<Rightarrow> 'a world" where
  "log_call w f args = w\<lparr>calls := calls w @ [(f, args)]\<rparr>"

section \<open>The parts of \<open>core\<close> and \<open>util\<close> that \<open>routines.py\<close> uses\<close>

text \<open>
  Modelled from the spec: the block-cyclic mapping of \<open>core\<close> (section 4.1): global
  index \<open>i\<close> is assigned to grid coordinate \<open>(i div b) mod p\<close>, and the indices one
  process owns keep their order in its local buffer.
\<close>

definition owned :: "nat \<Rightarrow> nat \<Rightarrow> nat \<Rightarrow> nat \<Rightarrow> nat list" where
  "owned n b p r = filter (\<lambda>i. (i div b) mod p = r) [0..<n]"

definition global_rows :: "'a DistributedMatrix \<Rightarrow> nat list" where
  "global_rows A =
     owned (fst (global_shape A)) (fst (block_shape A))
       (fst (grid_shape (grid_context A))) (fst (grid_position (grid_context A)))"

definition global_cols :: "'a DistributedMatrix \<Rightarrow> nat list" where
  "global_cols A =
     owned (snd (global_shape A)) (snd (block_shape A))
       (snd (grid_shape (grid_context A))) (snd (grid_position (grid_context A)))"

definition local_shape :: "'a DistributedMatrix \<Rightarrow> nat \<times> nat" where
  "local_shape A = (length (global_rows A), length (global_cols A))"

text \<open>
  Modelled from the spec: \<open>DistributedMatrix.indices\<close> (\<open>local_to_global_indices\<close>),
  the global row index and the global column index of every entry of the local buffer,
  as two arrays of the local buffer's shape.
\<close>

definition indices :: "'a DistributedMatrix \<Rightarrow> nat list list \<times> nat list list" where
  "indices A =
     (map (\<lambda>i. map (\<lambda>j. i) (global_cols A)) (global_rows A),
      map (\<lambda>i. global_cols A) (global_rows A))"

text \<open>The shape of a two-dimensional buffer: every row has the given length.\<close>

definition has_shape :: "'b list list \<Rightarrow> nat \<times> nat \<Rightarrow> bool" where
  "has_shape buf s = (length buf = fst s \<and> list_all (\<lambda>row. length row = snd s) buf)"

text \<open>
  The invariant of a distributed matrix (section 3 of the spec): positive global and
  block extents, and a local buffer of the block-cyclic extents.
\<close>

definition wf_matrix :: "'a DistributedMatrix \<Rightarrow> bool" where
  "wf_matrix A =
     (0 < fst (global_shape A) \<and> 0 < snd (global_shape A) \<and>
      0 < fst (block_shape A) \<and> 0 < snd (block_shape A) \<and>
      has_shape (local_array A) (local_shape A))"

text \<open>
  Modelled from the spec: \<open>util.assert_square\<close>, which fails with a shape error unless
  the two global extents agree.
\<close>

definition assert_square :: "'a DistributedMatrix \<Rightarrow> exn + unit" where
  "assert_square A =
     (if fst (global_shape A) = snd (global_shape A) then Inr ()
      else Inl (Raise ShapeError ''Matrix must be square''))"

text \<open>
  Modelled from the spec: \<open>util.real_equiv\<close>, the real type of the same precision.
\<close>

fun real_equiv :: "dtype \<Rightarrow> dtype" where
  "real_equiv Float32 = Float32"
| "real_equiv Complex64 = Float32"
| "real_equiv Float64 = Float64"
| "real_equiv Complex128 = Float64"

text \<open>
  Modelled from the spec: the attribute \<open>sc_dtype\<close>, the one-letter ScaLAPACK type code
  of the element variant, which is the key of the call tables.
\<close>

fun sc_dtype :: "dtype \<Rightarrow> string" where
  "sc_dtype Float32 = ''S''"
| "sc_dtype Float64 = ''D''"
| "sc_dtype Complex64 = ''C''"
| "sc_dtype Complex128 = ''Z''"

text \<open>
  Modelled from the spec: \<open>DistributedMatrix.copy\<close>, a new object with the same metadata
  and a copy of the local buffer.
\<close>

definition dm_copy :: "'a world \<Rightarrow> ref \<Rightarrow> ref \<times> 'a world" where
  "dm_copy w r = alloc w (deref w r)"

text \<open>An uninitialised two-dimensional buffer of the given shape.\<close>

definition empty_buffer :: "'a env \<Rightarrow> nat \<times> nat \<Rightarrow> 'a list list" where
  "empty_buffer e s = replicate (fst s) (replicate (snd s) (uninit e))"

text \<open>
  Modelled from the spec: \<open>DistributedMatrix.empty_like\<close>, a new object with the metadata
  of the given one and an uninitialised local buffer.
\<close>

definition empty_like :: "'a env \<Rightarrow> 'a world \<Rightarrow> ref \<Rightarrow> ref \<times> 'a world" where
  "empty_like e w r =
     alloc w ((deref w r)\<lparr>local_array := empty_buffer e (local_shape (deref w r))\<rparr>)"

text \<open>
  Modelled from the spec: the constructor \<open>core.DistributedMatrix(global_shape, dtype,
  block_shape, context)\<close> (\<open>create\<close> in section 4.1), which fails with a shape error
  if an extent is not positive and otherwise allocates a local buffer of the block-cyclic
  extents.
\<close>

definition new_matrix ::
  "'a env \<Rightarrow> 'a world \<Rightarrow> nat \<times> nat \<Rightarrow> dtype \<Rightarrow> nat \<times> nat \<Rightarrow> ProcessContext
     \<Rightarrow> (exn + ref) \<times> 'a world" where
  "new_matrix e w gs dt bs ctx =
     (if fst gs = 0 \<or> snd gs = 0 \<or> fst bs = 0 \<or> snd bs = 0
      then (Inl (Raise ShapeError ''Dimensions must be positive''), w)
      else
        (let A0 = \<lparr>global_shape = gs, block_shape = bs, grid_context = ctx, dtype = dt,
                   local_array = []\<rparr>;
             (C, w') = alloc w (A0\<lparr>local_array := empty_buffer e (local_shape A0)\<rparr>)
         in (Inr C, w')))"

text \<open>\<open>np.empty(N, dtype=dt)\<close> for a real dtype.\<close>

definition np_empty :: "'a env \<Rightarrow> nat \<Rightarrow> dtype \<Rightarrow> ndarray" where
  "np_empty e n dt = \<lparr>nd_dtype = dt, nd_data = replicate n (uninit_real e)\<rparr>"

section \<open>\<open>routines.py\<close>\<close>

subsection \<open>\<open>eigh\<close>\<close>

text \<open>
  The call table of \<open>eigh\<close>: for each type code the backend routine and the argument
  list, extended by the routine's workspace request.
\<close>

definition eigh_call_table :: "'a arg list \<Rightarrow> (string \<times> routine \<times> 'a arg list) list" where
  "eigh_call_table args =
     [(''S'', (pssyevr, args @ [WorkArray [''S'', ''I'']])),
      (''D'', (pdsyevr, args @ [WorkArray [''D'', ''I'']])),
      (''C'', (pcheevr, args @ [WorkArray [''C'', ''S'', ''I'']])),
      (''Z'', (pzheevr, args @ [WorkArray [''Z'', ''D'', ''I'']]))]"

text \<open>
  \<open>eigh(A, lower, overwrite_a, eigvals)\<close>. The result is the exception raised or the
  pair \<open>(evals, evecs)\<close>, together with the state the call leaves behind. The backend
  call is logged and the buffers it writes (A, the eigenvalue array, the eigenvector
  matrix) take the contents it hands back; this happens before the status is looked at.
\<close>

definition eigh ::
  "'a env \<Rightarrow> 'a world \<Rightarrow> ref \<Rightarrow> bool \<Rightarrow> bool \<Rightarrow> (int \<times> int) option
     \<Rightarrow> (exn + ndarray \<times> ref) \<times> 'a world" where
  "eigh e w A0 lower overwrite_a eigvals =
     (case assert_square (deref w A0) of
        Inl err \<Rightarrow> (Inl err, w)
      | Inr _ \<Rightarrow>
          (let (A, w1) = (if overwrite_a then (A0, w) else dm_copy w A0);
               task = ''V'';
               uplo = (if lower then ''L'' else ''U'');
               N = fst (global_shape (deref w1 A));
               (low, high, erange) =
                 (case eigvals of
                    None \<Rightarrow> (1, 1, ''A'')
                  | Some (lo, hi) \<Rightarrow> (lo + 1, hi + 1, ''I''));
               (evecs, w2) = empty_like e w1 A;
               evals = np_empty e N (real_equiv (dtype (deref w2 A)));
               args = [Str task, Str erange, Str uplo, Intg (int N), Mat (deref w2 A),
                       Flt 1, Flt 1, Intg low, Intg high, Arr evals, Mat (deref w2 evecs)]
           in case map_of (eigh_call_table args) (sc_dtype (dtype (deref w2 A))) of
                None \<Rightarrow> (Inl (Raise KeyError (sc_dtype (dtype (deref w2 A)))), w2)
              | Some (func, args') \<Rightarrow>
                  (let r = ll_syevr e func args';
                       w3 = log_call w2 func args';
                       w4 = set_local_array (set_local_array w3 A (syevr_a r)) evecs (syevr_z r);
                       evals' = evals\<lparr>nd_data := syevr_w r\<rparr>
                   in if syevr_info r < 0 then (Inl (Raise Exception ''Failure.''), w4)
                      else (Inr (evals', evecs), w4))))"

text \<open>\<open>eigh(A)\<close>: every keyword parameter takes the default of the signature.\<close>

definition eigh_default :: "'a env \<Rightarrow> 'a world \<Rightarrow> ref \<Rightarrow> (exn + ndarray \<times> ref) \<times> 'a world" where
  "eigh_default e w A = eigh e w A True True None"

subsection \<open>\<open>cholesky\<close>\<close>

definition cholesky_call_table :: "'a arg list \<Rightarrow> (string \<times> routine \<times> 'a arg list) list" where
  "cholesky_call_table args =
     [(''S'', (pspotrf, args)),
      (''D'', (pdpotrf, args)),
      (''C'', (pcpotrf, args)),
      (''Z'', (pzpotrf, args))]"

text \<open>
  The mask of the triangle that is kept, from the two index arrays:
  \<open>(ci <= ri) if lower else (ci >= ri)\<close>, entry by entry.
\<close>

definition triangle_mask :: "bool \<Rightarrow> nat list list \<Rightarrow> nat list list \<Rightarrow> bool list list" where
  "triangle_mask lower ri ci =
     (if lower then map2 (map2 (\<lambda>c r. c \<le> r)) ci ri
      else map2 (map2 (\<lambda>c r. c \<ge> r)) ci ri)"

text \<open>
  \<open>A.local_array * mask\<close>: numpy casts the boolean mask to the dtype of the buffer,
  \<open>True\<close> to one and \<open>False\<close> to zero, and multiplies entry by entry in the arithmetic
  of that dtype. Nothing is assumed of that product: what an entry times zero is depends
  on the entry type. The two arrays have the same shape by the invariant of the matrix;
  numpy's broadcasting of unequal shapes is not modelled.
\<close>

definition mask_mul ::
  "'a::{times,zero,one} list list \<Rightarrow> bool list list \<Rightarrow> 'a list list" where
  "mask_mul buf msk = map2 (map2 (\<lambda>x b. x * (if b then 1 else 0))) buf msk"

text \<open>
  \<open>cholesky(A, lower, overwrite_a, zero_triangle)\<close>: the exception raised or the
  reference returned, and the state left behind.
\<close>

definition cholesky ::
  "'a::{times,zero,one} env \<Rightarrow> 'a world \<Rightarrow> ref \<Rightarrow> bool \<Rightarrow> bool \<Rightarrow> bool
     \<Rightarrow> (exn + ref) \<times> 'a world" where
  "cholesky e w A0 lower overwrite_a zero_triangle =
     (case assert_square (deref w A0) of
        Inl err \<Rightarrow> (Inl err, w)
      | Inr _ \<Rightarrow>
          (let (A, w1) = (if overwrite_a then (A0, w) else dm_copy w A0);
               uplo = (if lower then ''L'' else ''U'');
               N = fst (global_shape (deref w1 A));
               args = [Str uplo, Intg (int N), Mat (deref w1 A)]
           in case map_of (cholesky_call_table args) (sc_dtype (dtype (deref w1 A))) of
                None \<Rightarrow> (Inl (Raise KeyError (sc_dtype (dtype (deref w1 A)))), w1)
              | Some (func, args') \<Rightarrow>
                  (let r = ll_potrf e func args';
                       w2 = set_local_array (log_call w1 func args') A (potrf_a r)
                   in if potrf_info r < 0 then (Inl (Raise ScalapackException ''Failure.''), w2)
                      else if zero_triangle then
                        (let (ri, ci) = indices (deref w2 A);
                             msk = triangle_mask lower ri ci
                         in (Inr A,
                             set_local_array w2 A (mask_mul (local_array (deref w2 A)) msk)))
                      else (Inr A, w2))))"

text \<open>\<open>cholesky(A)\<close>: every keyword parameter takes the default of the signature.\<close>

definition cholesky_default ::
  "'a::{times,zero,one} env \<Rightarrow> 'a world \<Rightarrow> ref \<Rightarrow> (exn + ref) \<times> 'a world" where
  "cholesky_default e w A = cholesky e w A False False True"

subsection \<open>\<open>dot\<close>\<close>

definition dot_call_table :: "'a arg list \<Rightarrow> (string \<times> routine \<times> 'a arg list) list" where
  "dot_call_table args =
     [(''S'', (psgemm, args)),
      (''C'', (pcgemm, args)),
      (''D'', (pdgemm, args)),
      (''Z'', (pzgemm, args))]"

text \<open>
  The four effective extents of \<open>dot\<close>: \<open>m\<close> and \<open>k\<close> from A and \<open>transA\<close>, \<open>n\<close> and
  \<open>l\<close> from B and \<open>transB\<close>.
\<close>

definition dot_dims ::
  "'a DistributedMatrix \<Rightarrow> 'a DistributedMatrix \<Rightarrow> string \<Rightarrow> string \<Rightarrow> nat \<times> nat \<times> nat \<times> nat" where
  "dot_dims A B transA transB =
     (let m = (if transA \<in> set [''N'', ''C''] then fst (global_shape A) else snd (global_shape A));
          n = (if transB \<in> set [''N'', ''C''] then snd (global_shape B) else fst (global_shape B));
          k = (if transA \<in> set [''N'', ''C''] then snd (global_shape A) else fst (global_shape A));
          l = (if transB \<in> set [''N'', ''C''] then fst (global_shape B) else snd (global_shape B))
      in (m, n, k, l))"

text \<open>
  \<open>dot(A, B, transA, transB)\<close>: the exception raised or the reference of the product,
  and the state left behind. The value the backend returns is dropped.
\<close>

definition dot ::
  "'a env \<Rightarrow> 'a world \<Rightarrow> ref \<Rightarrow> ref \<Rightarrow> string \<Rightarrow> string \<Rightarrow> (exn + ref) \<times> 'a world" where
  "dot e w A B transA transB =
     (if transA \<notin> set [''N'', ''T'', ''H'', ''C'']
      then (Inl (Raise ScalapyException ''Trans argument for matrix A invalid''), w)
      else if transB \<notin> set [''N'', ''T'', ''H'', ''C'']
      then (Inl (Raise ScalapyException ''Trans argument for matrix B invalid''), w)
      else if dtype (deref w A) \<noteq> dtype (deref w B)
      then (Inl (Raise ScalapyException ''Matrices must have same type''), w)
      else
        (let (m, n, k, l) = dot_dims (deref w A) (deref w B) transA transB
         in if l \<noteq> k
            then (Inl (Raise ScalapyException ''Matrix shapes are incompatible.''), w)
            else
              (case new_matrix e w (m, n) (dtype (deref w A)) (block_shape (deref w A))
                      (grid_context (deref w A)) of
                 (Inl err, w1) \<Rightarrow> (Inl err, w1)
               | (Inr C, w1) \<Rightarrow>
                   (let args = [Str transA, Str transB, Intg (int m), Intg (int n), Intg (int k),
                                Flt 1, Mat (deref w1 A), Mat (deref w1 B), Flt 0,
                                Mat (deref w1 C)]
                    in case map_of (dot_call_table args) (sc_dtype (dtype (deref w1 A))) of
                         None \<Rightarrow> (Inl (Raise KeyError (sc_dtype (dtype (deref w1 A)))), w1)
                       | Some (func, args') \<Rightarrow>
                           (let r = ll_gemm e func args';
                                w2 = set_local_array (log_call w1 func args') C (gemm_c r)
                            in (Inr C, w2))))))"

text \<open>\<open>dot(A, B)\<close>: both transform tokens take the default \<open>'N'\<close>.\<close>

definition dot_default :: "'a env \<Rightarrow> 'a world \<Rightarrow> ref \<Rightarrow> ref \<Rightarrow> (exn + ref) \<times> 'a world" where
  "dot_default e w A B = dot e w A B ''N'' ''N''"

section \<open>Vocabulary for the statements\<close>

text \<open>
  The routine each call table selects for an element variant, and for \<open>eigh\<close> the type
  codes of the workspace request that goes with it.
\<close>

fun syevr_entry :: "dtype \<Rightarrow> routine \<times> string list" where
  "syevr_entry Float32 = (pssyevr, [''S'', ''I''])"
| "syevr_entry Float64 = (pdsyevr, [''D'', ''I''])"
| "syevr_entry Complex64 = (pcheevr, [''C'', ''S'', ''I''])"
| "syevr_entry Complex128 = (pzheevr, [''Z'', ''D'', ''I''])"

fun potrf_entry :: "dtype \<Rightarrow> routine" where
  "potrf_entry Float32 = pspotrf"
| "potrf_entry Float64 = pdpotrf"
| "potrf_entry Complex64 = pcpotrf"
| "potrf_entry Complex128 = pzpotrf"

fun gemm_entry :: "dtype \<Rightarrow> routine" where
  "gemm_entry Float32 = psgemm"
| "gemm_entry Float64 = pdgemm"
| "gemm_entry Complex64 = pcgemm"
| "gemm_entry Complex128 = pzgemm"

text \<open>The class of the exception a call ended with, if it ended with one.\<close>

fun raised :: "exn + 'b \<Rightarrow> exn_class option" where
  "raised (Inl err) = Some (exn_kind err)"
| "raised (Inr v) = None"

text \<open>
  The local buffer of the matrix, and the data of the array, passed at a given position
  of an argument list.
\<close>

definition buffer_at :: "'a arg list \<Rightarrow> nat \<Rightarrow> 'a list list" where
  "buffer_at args i =
     (if i < length args then (case args ! i of Mat A \<Rightarrow> local_array A | _ \<Rightarrow> []) else [])"

definition values_at :: "'a arg list \<Rightarrow> nat \<Rightarrow> real list" where
  "values_at args i =
     (if i < length args then (case args ! i of Arr x \<Rightarrow> nd_data x | _ \<Rightarrow> []) else [])"

definition same_extents :: "'b list list \<Rightarrow> 'b list list \<Rightarrow> bool" where
  "same_extents xs ys = (map length xs = map length ys)"

text \<open>
  The one assumption made about the backend: a routine writes into the buffers it is
  handed and cannot resize them. The positions are those of the argument lists built
  in \<open>routines.py\<close>: A, the eigenvalue array and the eigenvector matrix for \<open>p?syevr\<close>,
  A for \<open>p?potrf\<close>, C for \<open>p?gemm\<close>.
\<close>

definition keeps_extents :: "'a env \<Rightarrow> bool" where
  "keeps_extents e =
     (\<forall>f args.
        same_extents (syevr_a (ll_syevr e f args)) (buffer_at args 4) \<and>
        length (syevr_w (ll_syevr e f args)) = length (values_at args 9) \<and>
        same_extents (syevr_z (ll_syevr e f args)) (buffer_at args 10) \<and>
        same_extents (potrf_a (ll_potrf e f args)) (buffer_at args 2) \<and>
        same_extents (gemm_c (ll_gemm e f args)) (buffer_at args 9))"

text \<open>
  A stand-in environment for concrete runs: every routine reports the status \<open>st\<close> and
  replaces each entry \<open>x\<close> of the matrix buffers it may write by \<open>g x\<close>; the eigenvalue
  array is left as allocated. Uninitialised memory reads \<open>junk\<close> in matrices and \<open>0\<close> in
  real arrays.
\<close>

definition stub_env :: "int \<Rightarrow> ('a \<Rightarrow> 'a) \<Rightarrow> 'a \<Rightarrow> 'a env" where
  "stub_env st g junk =
     \<lparr>ll_syevr = (\<lambda>f args.
        \<lparr>syevr_info = st, syevr_m = 0, syevr_nz = 0,
         syevr_a = map (map g) (buffer_at args 4),
         syevr_w = values_at args 9,
         syevr_z = map (map g) (buffer_at args 10)\<rparr>),
      ll_potrf = (\<lambda>f args. \<lparr>potrf_info = st, potrf_a = map (map g) (buffer_at args 2)\<rparr>),
      ll_gemm = (\<lambda>f args. \<lparr>gemm_status = st, gemm_c = map (map g) (buffer_at args 9)\<rparr>),
      uninit = junk, uninit_real = 0\<rparr>"

text \<open>
  Sample data: the process at the origin of a 2 by 2 grid, with blocks of one entry. Of
  a 3 by 3 matrix it holds the global rows and columns 0 and 2, of a 5 by 6 matrix the
  rows and columns 0, 2 and 4.
\<close>

definition corner :: ProcessContext where
  "corner = \<lparr>grid_shape = (2, 2), grid_position = (0, 0)\<rparr>"

definition sample_A :: "int DistributedMatrix" where
  "sample_A = \<lparr>global_shape = (3, 3), block_shape = (1, 1), grid_context = corner,
               dtype = Float64, local_array = [[4, 7], [7, 9]]\<rparr>"

definition sample_B :: "int DistributedMatrix" where
  "sample_B = \<lparr>global_shape = (5, 6), block_shape = (1, 1), grid_context = corner,
               dtype = Float32, local_array = [[1, 2, 3], [4, 5, 6], [7, 8, 9]]\<rparr>"

definition sample_world :: "int world" where
  "sample_world = \<lparr>heap = [sample_A, sample_B], calls = []\<rparr>"

text \<open>
  The effective extents of an operand as the specification words them (section 4.4): the
  native extents under the tokens for "none" and "conjugate only", the swapped extents
  otherwise.
\<close>

definition effective_shape :: "string \<Rightarrow> nat \<times> nat \<Rightarrow> nat \<times> nat" where
  "effective_shape T s = (if T = ''N'' \<or> T = ''C'' then s else (snd s, fst s))"




definition write_front :: "'b list \<Rightarrow> 'b list \<Rightarrow> 'b list" where
  "write_front xs buf = take (length buf) (xs @ drop (length xs) buf)"






text \<open>
  The 3 by 3 identity, which is its own Cholesky factor, held by a single process, with
  the triangle that \<open>p?potrf\<close> does not touch never filled in: once the upper, once the
  lower triangle holds a NaN and two infinities.
\<close>

definition single :: ProcessContext where
  "single = \<lparr>grid_shape = (1, 1), grid_position = (0, 0)\<rparr>"

definition stale_upper :: "ieee DistributedMatrix" where
  "stale_upper = \<lparr>global_shape = (3, 3), block_shape = (2, 2), grid_context = single,
     dtype = Float64,
     local_array = [[Finite 1, NaN, PInf], [Finite 0, Finite 1, NInf],
                    [Finite 0, Finite 0, Finite 1]]\<rparr>"

definition stale_lower :: "ieee DistributedMatrix" where
  "stale_lower = \<lparr>global_shape = (3, 3), block_shape = (2, 2), grid_context = single,
     dtype = Float64,
     local_array = [[Finite 1, Finite 0, Finite 0], [NaN, Finite 1, Finite 0],
                    [PInf, NInf, Finite 1]]\<rparr>"

section \<open>Auxiliary lemmas\<close>

lemma eigh_lookup:
  "map_of (eigh_call_table args) (sc_dtype d) =
     Some (fst (syevr_entry d), args @ [WorkArray (snd (syevr_entry d))])"
  by (cases d) (simp_all add: eigh_call_table_def)

lemma cholesky_lookup:
  "map_of (cholesky_call_table args) (sc_dtype d) = Some (potrf_entry d, args)"
  by (cases d) (simp_all add: cholesky_call_table_def)

lemma dot_lookup:
  "map_of (dot_call_table args) (sc_dtype d) = Some (gemm_entry d, args)"
  by (cases d) (simp_all add: dot_call_table_def)

lemma indices_local_array [simp]:
  "indices (M\<lparr>local_array := buf\<rparr>) = indices M"
  "local_shape (M\<lparr>local_array := buf\<rparr>) = local_shape M"
  by (simp_all add: indices_def local_shape_def global_rows_def global_cols_def)

text \<open>What \<open>eigh\<close> does on a square matrix, with every intermediate value written out.\<close>

lemma eigh_run:
  assumes sq: "fst (global_shape (heap w ! A0)) = snd (global_shape (heap w ! A0))"
    and ok: "A0 < length (heap w)"
  shows "eigh e w A0 lower ow ev =
     (let M = heap w ! A0;
          hp = (if ow then heap w else heap w @ [M]);
          A = (if ow then A0 else length (heap w));
          Z = M\<lparr>local_array := empty_buffer e (local_shape M)\<rparr>;
          N = fst (global_shape M);
          f = fst (syevr_entry (dtype M));
          args = [Str ''V'', Str (if ev = None then ''A'' else ''I''),
                  Str (if lower then ''L'' else ''U''), Intg (int N), Mat M, Flt 1, Flt 1,
                  Intg (case ev of None \<Rightarrow> 1 | Some (lo, hi) \<Rightarrow> lo + 1),
                  Intg (case ev of None \<Rightarrow> 1 | Some (lo, hi) \<Rightarrow> hi + 1),
                  Arr (np_empty e N (real_equiv (dtype M))), Mat Z,
                  WorkArray (snd (syevr_entry (dtype M)))];
          r = ll_syevr e f args;
          w' = w\<lparr>heap := (hp @ [Z])[A := M\<lparr>local_array := syevr_a r\<rparr>,
                                     length hp := Z\<lparr>local_array := syevr_z r\<rparr>],
                 calls := calls w @ [(f, args)]\<rparr>
      in (if syevr_info r < 0 then Inl (Raise Exception ''Failure.'')
          else Inr (\<lparr>nd_dtype = real_equiv (dtype M), nd_data = syevr_w r\<rparr>, length hp), w'))"
  using assms
  by (cases ev)
    (simp_all add: eigh_def assert_square_def eigh_lookup Let_def dm_copy_def empty_like_def
      deref_def alloc_def set_local_array_def log_call_def np_empty_def nth_append split_beta)

lemma eigh_not_square:
  "fst (global_shape (heap w ! A)) \<noteq> snd (global_shape (heap w ! A)) \<Longrightarrow>
   eigh e w A lower ow ev = (Inl (Raise ShapeError ''Matrix must be square''), w)"
  by (simp add: eigh_def assert_square_def deref_def)

text \<open>The same for \<open>cholesky\<close>.\<close>

lemma cholesky_run:
  assumes sq: "fst (global_shape (heap w ! A0)) = snd (global_shape (heap w ! A0))"
    and ok: "A0 < length (heap w)"
  shows "cholesky e w A0 lower ow zt =
     (let M = heap w ! A0;
          hp = (if ow then heap w else heap w @ [M]);
          A = (if ow then A0 else length (heap w));
          f = potrf_entry (dtype M);
          args = [Str (if lower then ''L'' else ''U''), Intg (int (fst (global_shape M))), Mat M];
          r = ll_potrf e f args;
          buf = (if zt \<and> \<not> potrf_info r < 0
                 then mask_mul (potrf_a r)
                        (triangle_mask lower (fst (indices M)) (snd (indices M)))
                 else potrf_a r)
      in (if potrf_info r < 0 then Inl (Raise ScalapackException ''Failure.'') else Inr A,
          w\<lparr>heap := hp[A := M\<lparr>local_array := buf\<rparr>], calls := calls w @ [(f, args)]\<rparr>))"
  using assms
  by (simp add: cholesky_def assert_square_def cholesky_lookup Let_def dm_copy_def deref_def
        alloc_def set_local_array_def log_call_def nth_append split_beta)

lemma cholesky_not_square:
  "fst (global_shape (heap w ! A)) \<noteq> snd (global_shape (heap w ! A)) \<Longrightarrow>
   cholesky e w A lower ow zt = (Inl (Raise ShapeError ''Matrix must be square''), w)"
  by (simp add: cholesky_def assert_square_def deref_def)

text \<open>And for \<open>dot\<close>, on operands that pass every check.\<close>

lemma dot_run:
  assumes tA: "transA \<in> set [''N'', ''T'', ''H'', ''C'']"
    and tB: "transB \<in> set [''N'', ''T'', ''H'', ''C'']"
    and dt: "dtype (heap w ! A) = dtype (heap w ! B)"
    and okA: "A < length (heap w)" and okB: "B < length (heap w)"
    and dims: "dot_dims (heap w ! A) (heap w ! B) transA transB = (m, n, k, k)"
    and pos: "0 < m" "0 < n" "0 < fst (block_shape (heap w ! A))"
      "0 < snd (block_shape (heap w ! A))"
  shows "dot e w A B transA transB =
     (let MA = heap w ! A; MB = heap w ! B;
          C0 = \<lparr>global_shape = (m, n), block_shape = block_shape MA,
                grid_context = grid_context MA, dtype = dtype MA, local_array = []\<rparr>;
          C1 = C0\<lparr>local_array := empty_buffer e (local_shape C0)\<rparr>;
          f = gemm_entry (dtype MA);
          args = [Str transA, Str transB, Intg (int m), Intg (int n), Intg (int k), Flt 1,
                  Mat MA, Mat MB, Flt 0, Mat C1];
          r = ll_gemm e f args
      in (Inr (length (heap w)),
          w\<lparr>heap := heap w @ [C1\<lparr>local_array := gemm_c r\<rparr>],
            calls := calls w @ [(f, args)]\<rparr>))"
  using assms
  by (simp add: dot_def dot_lookup Let_def new_matrix_def deref_def
        alloc_def set_local_array_def log_call_def nth_append split_beta)



lemma keeps_extents_stub: "keeps_extents (stub_env st g junk)"
  by (simp add: keeps_extents_def stub_env_def same_extents_def comp_def)

lemma owned_sample:
  "owned 3 (Suc 0) 2 0 = [0, 2]"
  "owned 5 (Suc 0) 2 0 = [0, 2, 4]"
  "owned 6 (Suc 0) 2 0 = [0, 2, 4]"
  by (simp_all add: owned_def upt_rec)

lemma sample_shapes:
  "global_rows sample_A = [0, 2]" "global_cols sample_A = [0, 2]"
  "global_rows sample_B = [0, 2, 4]" "global_cols sample_B = [0, 2, 4]"
  by (simp_all add: global_rows_def global_cols_def sample_A_def sample_B_def corner_def
      owned_sample)

lemma wf_sample: "wf_matrix sample_A" "wf_matrix sample_B"
  by (simp_all add: wf_matrix_def has_shape_def local_shape_def sample_shapes)
     (simp_all add: sample_A_def sample_B_def)

lemma sample_heap:
  "heap sample_world ! 0 = sample_A" "heap sample_world ! Suc 0 = sample_B"
  "length (heap sample_world) = 2" "calls sample_world = []"
  by (simp_all add: sample_world_def)

lemma sample_fields:
  "global_shape sample_A = (3, 3)" "global_shape sample_B = (5, 6)"
  "dtype sample_A = Float64" "dtype sample_B = Float32"
  by (simp_all add: sample_A_def sample_B_def)

lemma sample_local_shape: "local_shape sample_A = (2, 2)" "local_shape sample_B = (3, 3)"
  by (simp_all add: local_shape_def sample_shapes)

lemma tokens: "''N'' \<in> set [''N'', ''T'', ''H'', ''C'']" "''T'' \<in> set [''N'', ''T'', ''H'', ''C'']"
  by simp_all

lemma dot_dims_effective:
  "dot_dims MA MB transA transB =
     (fst (effective_shape transA (global_shape MA)),
      snd (effective_shape transB (global_shape MB)),
      snd (effective_shape transA (global_shape MA)),
      fst (effective_shape transB (global_shape MB)))"
  by (simp add: dot_dims_def effective_shape_def Let_def)

lemma eigh_failure_iff:
  assumes ok: "A < length (heap w)"
  shows "(raised (fst (eigh e w A lower ow ev)) = Some Exception) =
         (\<exists>f args. calls (snd (eigh e w A lower ow ev)) = calls w @ [(f, args)] \<and>
                   syevr_info (ll_syevr e f args) < 0)"
proof (cases "fst (global_shape (heap w ! A)) = snd (global_shape (heap w ! A))")
  case True
  show ?thesis
    unfolding eigh_run [OF True ok] by (simp add: Let_def)
next
  case False
  then show ?thesis by (simp add: eigh_not_square)
qed

lemma cholesky_failure_iff:
  assumes ok: "A < length (heap w)"
  shows "(raised (fst (cholesky e w A lower ow zt)) = Some ScalapackException) =
         (\<exists>f args. calls (snd (cholesky e w A lower ow zt)) = calls w @ [(f, args)] \<and>
                   potrf_info (ll_potrf e f args) < 0)"
proof (cases "fst (global_shape (heap w ! A)) = snd (global_shape (heap w ! A))")
  case True
  show ?thesis
    unfolding cholesky_run [OF True ok] by (simp add: Let_def)
next
  case False
  then show ?thesis by (simp add: cholesky_not_square)
qed

lemma eigh_raised:
  assumes ok: "A < length (heap w)"
  shows "raised (fst (eigh e w A lower ow ev)) \<in> {None, Some Exception, Some ShapeError} \<and>
         length (calls (snd (eigh e w A lower ow ev))) \<le> Suc (length (calls w))"
proof (cases "fst (global_shape (heap w ! A)) = snd (global_shape (heap w ! A))")
  case True
  show ?thesis
    unfolding eigh_run [OF True ok] by (simp add: Let_def)
next
  case False
  then show ?thesis by (simp add: eigh_not_square)
qed

lemma cholesky_raised:
  assumes ok: "A < length (heap w)"
  shows "raised (fst (cholesky e w A lower ow zt)) \<in>
           {None, Some ScalapackException, Some ShapeError} \<and>
         length (calls (snd (cholesky e w A lower ow zt))) \<le> Suc (length (calls w))"
proof (cases "fst (global_shape (heap w ! A)) = snd (global_shape (heap w ! A))")
  case True
  show ?thesis
    unfolding cholesky_run [OF True ok] by (simp add: Let_def)
next
  case False
  then show ?thesis by (simp add: cholesky_not_square)
qed

lemma length_write_front [simp]: "length (write_front xs buf) = length buf"
  by (simp add: write_front_def)







section \<open>The operations against their specification\<close>







text \<open>
  C3, as the code has it. For valid transform tokens and operands of the same dtype, the
  four extents \<open>dot\<close> computes are the effective extents of the specification, and
  \<open>dot\<close> raises the exception "Matrix shapes are incompatible." exactly when \<open>l\<close> and
  \<open>k\<close> differ; it does so with the state untouched, so before any backend call.
\<close>

theorem dot_inner_dimension_check:
  assumes tA: "transA \<in> set [''N'', ''T'', ''H'', ''C'']"
    and tB: "transB \<in> set [''N'', ''T'', ''H'', ''C'']"
    and dt: "dtype (heap w ! A) = dtype (heap w ! B)"
    and k: "k = snd (effective_shape transA (global_shape (heap w ! A)))"
    and l: "l = fst (effective_shape transB (global_shape (heap w ! B)))"
  shows "dot_dims (heap w ! A) (heap w ! B) transA transB =
           (fst (effective_shape transA (global_shape (heap w ! A))),
            snd (effective_shape transB (global_shape (heap w ! B))), k, l) \<and>
         (fst (dot e w A B transA transB) =
            Inl (Raise ScalapyException ''Matrix shapes are incompatible.'')) = (l \<noteq> k) \<and>
         (l \<noteq> k \<longrightarrow> snd (dot e w A B transA transB) = w)"
  using assms
  by (auto simp: dot_def dot_dims_effective deref_def new_matrix_def Let_def dot_lookup
      split_beta)

text \<open>
  The 5 by 6 sample matrix with itself: \<open>'N', 'N'\<close> has \<open>k = 6\<close> and \<open>l = 5\<close> and is
  rejected, \<open>'N', 'T'\<close> has \<open>k = l = 6\<close> and is not.
\<close>

theorem dot_inner_dimension_check_witness:
  "dot_dims sample_B sample_B ''N'' ''N'' = (5, 6, 6, 5) \<and>
   fst (dot (stub_env 0 (\<lambda>x. x + 1) 0) sample_world 1 1 ''N'' ''N'') =
     Inl (Raise ScalapyException ''Matrix shapes are incompatible.'') \<and>
   snd (dot (stub_env 0 (\<lambda>x. x + 1) 0) sample_world 1 1 ''N'' ''N'') = sample_world \<and>
   dot_dims sample_B sample_B ''N'' ''T'' = (5, 5, 6, 6) \<and>
   fst (dot (stub_env 0 (\<lambda>x. x + 1) 0) sample_world 1 1 ''N'' ''T'') \<noteq>
     Inl (Raise ScalapyException ''Matrix shapes are incompatible.'')"
proof -
  have tN: "''N'' \<in> set [''N'', ''T'', ''H'', ''C'']" and tT: "''T'' \<in> set [''N'', ''T'', ''H'', ''C'']"
    by simp_all
  have dt: "dtype (heap sample_world ! 1) = dtype (heap sample_world ! 1)" ..
  from dot_inner_dimension_check [OF tN tN dt refl refl, of "stub_env 0 (\<lambda>x. x + 1) 0"]
    dot_inner_dimension_check [OF tN tT dt refl refl, of "stub_env 0 (\<lambda>x. x + 1) 0"]
  show ?thesis
    by (simp add: sample_heap sample_fields effective_shape_def)
qed

text \<open>
  C3 as stated fails for operands of different dtypes: with the float64 3 by 3 and the
  float32 5 by 6 sample matrices \<open>l = 5\<close> and \<open>k = 3\<close> differ, yet the exception raised
  is the one of the dtype check, which comes first.
\<close>

theorem dot_inner_dimension_check_counterexample:
  "fst (effective_shape ''N'' (global_shape (heap sample_world ! 1))) \<noteq>
     snd (effective_shape ''N'' (global_shape (heap sample_world ! 0))) \<and>
   fst (dot (stub_env 0 (\<lambda>x. x + 1) 0) sample_world 0 1 ''N'' ''N'') =
     Inl (Raise ScalapyException ''Matrices must have same type'') \<and>
   fst (dot (stub_env 0 (\<lambda>x. x + 1) 0) sample_world 0 1 ''N'' ''N'') \<noteq>
     Inl (Raise ScalapyException ''Matrix shapes are incompatible.'')"
  by code_simp

text \<open>
  C4, at an input where the code does not do what its specification and its own comment
  say. \<open>cholesky(A, lower=True, overwrite_a=True, zero_triangle=True)\<close> on the identity
  whose upper triangle was never filled in: the backend is called with \<open>'L'\<close>, succeeds
  and leaves the upper triangle alone, the mask is False strictly above the diagonal,
  and the three entries there are NaN afterwards, not zero: a NaN or an infinity times
  0.0 is a NaN.
\<close>

theorem cholesky_zero_triangle_nan:
  "cholesky (stub_env 0 (\<lambda>x. x) NaN) \<lparr>heap = [stale_upper], calls = []\<rparr> 0 True True True =
     (Inr 0,
      \<lparr>heap = [stale_upper\<lparr>local_array :=
                 [[Finite 1, NaN, NaN], [Finite 0, Finite 1, NaN],
                  [Finite 0, Finite 0, Finite 1]]\<rparr>],
       calls = [(pdpotrf, [Str ''L'', Intg 3, Mat stale_upper])]\<rparr>) \<and>
   indices stale_upper = ([[0, 0, 0], [1, 1, 1], [2, 2, 2]], [[0, 1, 2], [0, 1, 2], [0, 1, 2]]) \<and>
   (NaN :: ieee) \<noteq> 0"
  by code_simp

text \<open>
  C5. With \<open>overwrite_a=False\<close>, neither \<open>eigh\<close> nor \<open>cholesky\<close> changes the caller's
  matrix: after the call, whether it returned or raised, the object the caller passed
  has the metadata and the local buffer it had before. The backend worked on a copy.
\<close>

theorem overwrite_false_keeps_operand:
  fixes e :: "'a env" and e' :: "'b::{times,zero,one} env"
  assumes "A < length (heap w)" and "B < length (heap w')"
  shows "heap (snd (eigh e w A lower False eigvals)) ! A = heap w ! A \<and>
         heap (snd (cholesky e' w' B lower' False zero_triangle)) ! B = heap w' ! B"
proof
  show "heap (snd (eigh e w A lower False eigvals)) ! A = heap w ! A"
  proof (cases "fst (global_shape (heap w ! A)) = snd (global_shape (heap w ! A))")
    case True
    from eigh_run [OF True assms(1)] assms(1) show ?thesis
      by (simp add: Let_def nth_append)
  next
    case False
    then show ?thesis by (simp add: eigh_not_square)
  qed
  show "heap (snd (cholesky e' w' B lower' False zero_triangle)) ! B = heap w' ! B"
  proof (cases "fst (global_shape (heap w' ! B)) = snd (global_shape (heap w' ! B))")
    case True
    from cholesky_run [OF True assms(2)] assms(2) show ?thesis
      by (simp add: Let_def nth_append)
  next
    case False
    then show ?thesis by (simp add: cholesky_not_square)
  qed
qed

text \<open>
  On the sample matrix, with a backend that adds one to every entry: \<open>eigh\<close> fails
  (status -1) and \<open>cholesky\<close> succeeds, and the caller's matrix is as it was.
\<close>

theorem overwrite_false_keeps_operand_witness:
  "heap (snd (eigh (stub_env (- 1) (\<lambda>x. x + 1) 0) sample_world 0 True False None)) ! 0
     = sample_A \<and>
   heap (snd (cholesky (stub_env 0 (\<lambda>x. x + 1) 0) sample_world 0 False False True)) ! 0
     = sample_A"
  using overwrite_false_keeps_operand [where A = 0 and w = sample_world and B = 0
      and w' = sample_world and e = "stub_env (- 1) (\<lambda>x. x + 1) 0" and lower = True
      and eigvals = None and e' = "stub_env 0 (\<lambda>x. x + 1) 0" and lower' = False
      and zero_triangle = True]
  by (simp add: sample_world_def)



text \<open>
  C7, as the code has it. A transform token outside \<open>N, T, H, C\<close> and a pair of operands
  of different dtypes are each rejected with a \<open>ScalapyException\<close>, the class that the
  shape check raises too; the three differ in their message only. The state is
  untouched, so no backend call has been made.
\<close>

theorem dot_rejects_invalid_arguments:
  assumes "transA \<notin> set [''N'', ''T'', ''H'', ''C''] \<or>
           transB \<notin> set [''N'', ''T'', ''H'', ''C''] \<or>
           dtype (heap w ! A) \<noteq> dtype (heap w ! B)"
  shows "dot e w A B transA transB =
     (Inl (Raise ScalapyException
        (if transA \<notin> set [''N'', ''T'', ''H'', ''C''] then ''Trans argument for matrix A invalid''
         else if transB \<notin> set [''N'', ''T'', ''H'', ''C''] then ''Trans argument for matrix B invalid''
         else ''Matrices must have same type'')), w)"
  using assms by (auto simp: dot_def deref_def)

text \<open>An unknown token for A, a lower-case token for B, and a float64 with a float32 operand.\<close>

theorem dot_rejects_invalid_arguments_witness:
  "dot (stub_env 0 (\<lambda>x. x + 1) 0) sample_world 0 0 ''X'' ''N'' =
     (Inl (Raise ScalapyException ''Trans argument for matrix A invalid''), sample_world) \<and>
   dot (stub_env 0 (\<lambda>x. x + 1) 0) sample_world 0 0 ''N'' ''n'' =
     (Inl (Raise ScalapyException ''Trans argument for matrix B invalid''), sample_world) \<and>
   dot (stub_env 0 (\<lambda>x. x + 1) 0) sample_world 0 1 ''N'' ''N'' =
     (Inl (Raise ScalapyException ''Matrices must have same type''), sample_world)"
  using dot_rejects_invalid_arguments [of "''X''" "''N''" sample_world 0 0
      "stub_env 0 (\<lambda>x. x + 1) 0"]
    dot_rejects_invalid_arguments [of "''N''" "''n''" sample_world 0 0
      "stub_env 0 (\<lambda>x. x + 1) 0"]
    dot_rejects_invalid_arguments [of "''N''" "''N''" sample_world 0 1
      "stub_env 0 (\<lambda>x. x + 1) 0"]
  by (simp add: sample_heap sample_fields)

text \<open>
  C7 as stated fails: the exception for an invalid token, the one for unequal dtypes and
  the one for incompatible shapes are of one and the same class.
\<close>

theorem dot_rejects_invalid_arguments_counterexample:
  "raised (fst (dot (stub_env 0 (\<lambda>x. x + 1) 0) sample_world 0 0 ''X'' ''N'')) =
     Some ScalapyException \<and>
   raised (fst (dot (stub_env 0 (\<lambda>x. x + 1) 0) sample_world 0 1 ''N'' ''N'')) =
     Some ScalapyException \<and>
   raised (fst (dot (stub_env 0 (\<lambda>x. x + 1) 0) sample_world 1 1 ''N'' ''N'')) =
     Some ScalapyException \<and>
   raised (fst (dot (stub_env 0 (\<lambda>x. x + 1) 0) sample_world 0 0 ''X'' ''N'')) =
     raised (fst (dot (stub_env 0 (\<lambda>x. x + 1) 0) sample_world 0 1 ''N'' ''N''))"
  by code_simp

text \<open>
  C8. \<open>eigh\<close> ends with a plain \<open>Exception\<close> exactly when it called the backend and the
  status was negative; \<open>cholesky\<close> ends with a \<open>ScalapackException\<close> exactly when it
  called the backend and the status was negative. Neither raises the other's class nor
  the \<open>ScalapyException\<close> of the usage errors, and a shape error is of neither class.
  At most one backend call is made: a failure is not retried.
\<close>

theorem backend_failure_errors:
  fixes e :: "'a env" and e' :: "'b::{times,zero,one} env"
  assumes ok: "A < length (heap w)" and ok': "B < length (heap w')"
  shows "((raised (fst (eigh e w A lower ow ev)) = Some Exception) =
          (\<exists>f args. calls (snd (eigh e w A lower ow ev)) = calls w @ [(f, args)] \<and>
                    syevr_info (ll_syevr e f args) < 0)) \<and>
         ((raised (fst (cholesky e' w' B lower' ow' zt)) = Some ScalapackException) =
          (\<exists>f args. calls (snd (cholesky e' w' B lower' ow' zt)) = calls w' @ [(f, args)] \<and>
                    potrf_info (ll_potrf e' f args) < 0)) \<and>
         raised (fst (eigh e w A lower ow ev)) \<in> {None, Some Exception, Some ShapeError} \<and>
         raised (fst (cholesky e' w' B lower' ow' zt)) \<in>
           {None, Some ScalapackException, Some ShapeError} \<and>
         length (calls (snd (eigh e w A lower ow ev))) \<le> Suc (length (calls w)) \<and>
         length (calls (snd (cholesky e' w' B lower' ow' zt))) \<le> Suc (length (calls w'))"
  using eigh_failure_iff [OF ok] cholesky_failure_iff [OF ok'] eigh_raised [OF ok]
    cholesky_raised [OF ok']
  by blast

text \<open>
  On the sample matrix: with status -1 both operations fail, each with its own class,
  after one call; with status 0 both return.
\<close>

theorem backend_failure_errors_witness:
  "raised (fst (eigh (stub_env (- 1) (\<lambda>x. x + 1) 0) sample_world 0 True True None)) =
     Some Exception \<and>
   raised (fst (cholesky (stub_env (- 1) (\<lambda>x. x + 1) 0) sample_world 0 False False True)) =
     Some ScalapackException \<and>
   (\<exists>f args.
      calls (snd (eigh (stub_env (- 1) (\<lambda>x. x + 1) 0) sample_world 0 True True None)) =
        calls sample_world @ [(f, args)] \<and>
      syevr_info (ll_syevr (stub_env (- 1) (\<lambda>x. x + 1) 0) f args) < 0) \<and>
   (\<exists>f args.
      calls (snd (cholesky (stub_env (- 1) (\<lambda>x. x + 1) 0) sample_world 0 False False True)) =
        calls sample_world @ [(f, args)] \<and>
      potrf_info (ll_potrf (stub_env (- 1) (\<lambda>x. x + 1) 0) f args) < 0) \<and>
   raised (fst (eigh (stub_env 0 (\<lambda>x. x + 1) 0) sample_world 0 True True None)) = None \<and>
   raised (fst (cholesky (stub_env 0 (\<lambda>x. x + 1) 0) sample_world 0 False False True)) = None"
proof -
  let ?E = "stub_env (- 1) (\<lambda>x. x + 1) (0::int)"
  have ok: "0 < length (heap sample_world)"
    by (simp add: sample_heap)
  have a: "raised (fst (eigh ?E sample_world 0 True True None)) = Some Exception"
    by code_simp
  have b: "raised (fst (cholesky ?E sample_world 0 False False True)) = Some ScalapackException"
    by code_simp
  have c: "raised (fst (eigh (stub_env 0 (\<lambda>x. x + 1) 0) sample_world 0 True True None)) = None"
    by code_simp
  have d: "raised (fst (cholesky (stub_env 0 (\<lambda>x. x + 1) 0) sample_world 0 False False True)) = None"
    by code_simp
  from backend_failure_errors [OF ok ok, of ?E True True None ?E False False True] a b c d
  show ?thesis
    by simp
qed

text \<open>
  C9. On operands that pass the checks \<open>dot\<close> returns the new matrix whatever the backend
  reports, and replacing the status the backend returns by any other changes nothing in
  the outcome of \<open>dot\<close>: the status is never looked at.
\<close>

theorem dot_ignores_backend_status:
  assumes tA: "transA \<in> set [''N'', ''T'', ''H'', ''C'']"
    and tB: "transB \<in> set [''N'', ''T'', ''H'', ''C'']"
    and dt: "dtype (heap w ! A) = dtype (heap w ! B)"
    and okA: "A < length (heap w)" and okB: "B < length (heap w)"
    and wfA: "wf_matrix (heap w ! A)" and wfB: "wf_matrix (heap w ! B)"
    and inner: "snd (effective_shape transA (global_shape (heap w ! A))) =
                fst (effective_shape transB (global_shape (heap w ! B)))"
  shows "fst (dot e w A B transA transB) = Inr (length (heap w)) \<and>
         dot (e\<lparr>ll_gemm := \<lambda>f args. (ll_gemm e f args)\<lparr>gemm_status := st f args\<rparr>\<rparr>) w A B
             transA transB
           = dot e w A B transA transB"
proof -
  let ?m = "fst (effective_shape transA (global_shape (heap w ! A)))"
  let ?n = "snd (effective_shape transB (global_shape (heap w ! B)))"
  let ?k = "snd (effective_shape transA (global_shape (heap w ! A)))"
  have dims: "dot_dims (heap w ! A) (heap w ! B) transA transB = (?m, ?n, ?k, ?k)"
    using inner by (simp add: dot_dims_effective)
  have pos: "0 < ?m" "0 < ?n" "0 < fst (block_shape (heap w ! A))"
      "0 < snd (block_shape (heap w ! A))"
    using wfA wfB by (simp_all add: wf_matrix_def effective_shape_def)
  note run = dot_run [OF tA tB dt okA okB dims pos]
  show ?thesis
    by (simp add: run Let_def empty_buffer_def)
qed

text \<open>With a backend that reports -1, \<open>dot\<close> returns all the same.\<close>

theorem dot_ignores_backend_status_witness:
  "gemm_status (ll_gemm (stub_env (- 1) (\<lambda>x. x + 1) (0::int)) pdgemm []) = - 1 \<and>
   fst (dot (stub_env (- 1) (\<lambda>x. x + 1) 0) sample_world 0 0 ''N'' ''T'') = Inr 2 \<and>
   dot ((stub_env (- 1) (\<lambda>x. x + 1) 0)
         \<lparr>ll_gemm := \<lambda>f args. (ll_gemm (stub_env (- 1) (\<lambda>x. x + 1) 0) f args)
                                 \<lparr>gemm_status := 0\<rparr>\<rparr>) sample_world 0 0 ''N'' ''T'' =
     dot (stub_env (- 1) (\<lambda>x. x + 1) 0) sample_world 0 0 ''N'' ''T''"
proof -
  have ok: "0 < length (heap sample_world)"
    by (simp add: sample_heap)
  have wf: "wf_matrix (heap sample_world ! 0)"
    by (simp add: sample_heap wf_sample)
  have inner: "snd (effective_shape ''N'' (global_shape (heap sample_world ! 0))) =
               fst (effective_shape ''T'' (global_shape (heap sample_world ! 0)))"
    by (simp add: sample_heap sample_fields effective_shape_def)
  have st: "gemm_status (ll_gemm (stub_env (- 1) (\<lambda>x. x + 1) (0::int)) pdgemm []) = - 1"
    by (simp add: stub_env_def)
  from dot_ignores_backend_status [OF tokens(1) tokens(2) refl ok ok wf wf inner,
      of "stub_env (- 1) (\<lambda>x. x + 1) 0" "\<lambda>f args. 0"] st
  show ?thesis
    by (simp add: sample_heap)
qed

text \<open>
  C10, evaluated. \<open>cholesky(A)\<close> takes \<open>lower=False, overwrite_a=False,
  zero_triangle=True\<close>: the backend is called with \<open>'U'\<close> on a copy, the caller's matrix
  is unchanged and the result is a new object. On the identity whose lower triangle
  was never filled in, the entries below the diagonal of the result are NaN, not zero.
  \<open>eigh(A)\<close> takes \<open>lower=True, overwrite_a=True, eigvals=None\<close>: the backend is called
  with \<open>'A'\<close> and \<open>'L'\<close> on the caller's own matrix, which holds what the backend wrote.
\<close>

theorem default_flags_nan:
  "cholesky_default (stub_env 0 (\<lambda>x. x) NaN) \<lparr>heap = [stale_lower], calls = []\<rparr> 0 =
     (Inr 1,
      \<lparr>heap = [stale_lower,
               stale_lower\<lparr>local_array :=
                 [[Finite 1, Finite 0, Finite 0], [NaN, Finite 1, Finite 0],
                  [NaN, NaN, Finite 1]]\<rparr>],
       calls = [(pdpotrf, [Str ''U'', Intg 3, Mat stale_lower])]\<rparr>) \<and>
   (NaN :: ieee) \<noteq> 0 \<and>
   eigh_default (stub_env 0 (\<lambda>x. x + 1) 0) sample_world 0 =
     (Inr (\<lparr>nd_dtype = Float64, nd_data = [0, 0, 0]\<rparr>, 2),
      \<lparr>heap = [sample_A\<lparr>local_array := [[5, 8], [8, 10]]\<rparr>, sample_B,
               sample_A\<lparr>local_array := [[1, 1], [1, 1]]\<rparr>],
       calls = [(pdsyevr,
          [Str ''V'', Str ''A'', Str ''L'', Intg 3, Mat sample_A, Flt 1, Flt 1, Intg 1, Intg 1,
           Arr \<lparr>nd_dtype = Float64, nd_data = [0, 0, 0]\<rparr>,
           Mat (sample_A\<lparr>local_array := [[0, 0], [0, 0]]\<rparr>), WorkArray [''D'', ''I'']])]\<rparr>)"
  by code_simp

end
